theory Spec2Isabelle
  imports Complex_Main
begin

section \<open>Exceptions, vectors and the tabular source\<close>

text \<open>
  The two Streamlit scripts \<^verbatim>\<open>app3.py\<close> and \<^verbatim>\<open>app2.py\<close> run top to bottom on every
  interaction. An exception that no \<^verbatim>\<open>try\<close> catches ends the run; it is the left
  summand of a result, named by its Python class.
\<close>

datatype py_exception = Raised string

type_synonym vec = "real list"

text \<open>
  A pandas frame: the header, and one map per row from a column name to the text of the
  cell. A cell that holds no value (pandas' NaN, which \<^verbatim>\<open>read_csv\<close> puts where a field
  is empty) is \<open>None\<close>.
\<close>

record dataframe =
  columns :: "string list"
  rows :: "(string \<rightharpoonup> string) list"

text \<open>\<^verbatim>\<open>df.dropna(subset=[c])\<close>: a column that the frame does not have is a KeyError.\<close>

definition dropna :: "string \<Rightarrow> dataframe \<Rightarrow> py_exception + dataframe" where
  "dropna c df =
     (if c \<in> set (columns df)
      then Inr (df\<lparr>rows := filter (\<lambda>r. r c \<noteq> None) (rows df)\<rparr>)
      else Inl (Raised ''KeyError''))"

text \<open>
  \<^verbatim>\<open>load_recipes\<close> (app3.py, lines 96 to 99). The argument is the outcome of
  \<^verbatim>\<open>pd.read_csv("data/recipes.csv")\<close>: the frame, or the exception of a file that
  cannot be read.
\<close>

definition load_recipes :: "py_exception + dataframe \<Rightarrow> py_exception + dataframe" where
  "load_recipes csv = (case csv of Inl e \<Rightarrow> Inl e | Inr df \<Rightarrow> dropna ''name'' df)"

text \<open>\<^verbatim>\<open>df[c].tolist()\<close>: the cells of the column row by row, a missing one as \<open>None\<close>.\<close>

definition column_tolist :: "string \<Rightarrow> dataframe \<Rightarrow> py_exception + string option list" where
  "column_tolist c df =
     (if c \<in> set (columns df) then Inr (map (\<lambda>r. r c) (rows df))
      else Inl (Raised ''KeyError''))"

section \<open>The encoder, the index and the selection\<close>

text \<open>
  The sentence encoder (\<^verbatim>\<open>model.encode\<close> on one text) and the similarity of two
  vectors belong to libraries outside the repository; they are the parameters \<open>enc\<close> and
  \<open>sim\<close> of everything below. Scores are real numbers.
\<close>

text \<open>
  Modelled from the spec: the batch form of \<^verbatim>\<open>model.encode\<close> (the library function is
  not part of the repository). The spec gives it as order-preserving, one vector per
  input text, each the encoding of that text.
\<close>

definition encode_many :: "(string \<Rightarrow> vec) \<Rightarrow> string list \<Rightarrow> vec list" where
  "encode_many enc texts = map enc texts"

text \<open>
  \<^verbatim>\<open>util.pytorch_cos_sim(query_embedding, recipe_embeddings)[0]\<close>: row 0 of the
  similarity matrix, one score per vector of the index. An index without vectors is an
  empty tensor, whose shape does not fit the matrix product: the library raises a
  RuntimeError.
\<close>

definition pytorch_cos_sim_row ::
  "(vec \<Rightarrow> vec \<Rightarrow> real) \<Rightarrow> vec \<Rightarrow> vec list \<Rightarrow> py_exception + real list" where
  "pytorch_cos_sim_row sim q embeddings =
     (if embeddings = [] then Inl (Raised ''RuntimeError'')
      else Inr (map (sim q) embeddings))"

text \<open>
  Modelled from the spec: \<^verbatim>\<open>scores.argmax()\<close> (the tensor library is not part of the
  repository). The spec gives it as a sequential scan that keeps the position of the
  strictly greatest score seen so far, so the first of several equal maxima stays.
  \<open>scan_max bi bv i xs\<close> continues a scan whose best position so far is \<open>bi\<close> with
  score \<open>bv\<close>, the next position being \<open>i\<close>.
\<close>

fun scan_max :: "nat \<Rightarrow> real \<Rightarrow> nat \<Rightarrow> real list \<Rightarrow> nat" where
  "scan_max bi bv i [] = bi"
| "scan_max bi bv i (x # xs) =
     (if bv < x then scan_max i x (Suc i) xs else scan_max bi bv (Suc i) xs)"

text \<open>
  Modelled from the spec: the scan of \<^verbatim>\<open>scores.argmax()\<close> from position 0. The case
  of no scores is not the spec's: there the library raises an IndexError (the script never
  gets that far, the similarity has raised before).
\<close>

definition argmax :: "real list \<Rightarrow> py_exception + nat" where
  "argmax scores =
     (case scores of
        [] \<Rightarrow> Inl (Raised ''IndexError'')
      | x # xs \<Rightarrow> Inr (scan_max 0 x 1 xs))"

text \<open>\<^verbatim>\<open>xs[i]\<close> for a position \<open>i\<close> that is not negative: past the end is an IndexError.\<close>

definition py_index :: "'a list \<Rightarrow> nat \<Rightarrow> py_exception + 'a" where
  "py_index xs i = (if i < length xs then Inr (xs ! i) else Inl (Raised ''IndexError''))"

text \<open>
  The variables that lines 111 to 114 of app3.py bind, and the block itself. It has no
  guard of its own: whatever the library raises ends the run.
\<close>

record resolution =
  query_embedding :: vec
  scores :: "real list"
  best_index :: nat
  matched_recipe :: string

definition resolve ::
  "(string \<Rightarrow> vec) \<Rightarrow> (vec \<Rightarrow> vec \<Rightarrow> real) \<Rightarrow> string list \<Rightarrow> vec list \<Rightarrow> string
     \<Rightarrow> py_exception + resolution" where
  "resolve enc sim recipe_names recipe_embeddings user_query =
     (let qe = enc user_query
      in case pytorch_cos_sim_row sim qe recipe_embeddings of
           Inl e \<Rightarrow> Inl e
         | Inr sc \<Rightarrow>
             (case argmax sc of
                Inl e \<Rightarrow> Inl e
              | Inr bi \<Rightarrow>
                  (case py_index recipe_names bi of
                     Inl e \<Rightarrow> Inl e
                   | Inr name \<Rightarrow>
                       Inr \<lparr>query_embedding = qe, scores = sc, best_index = bi,
                            matched_recipe = name\<rparr>)))"

section \<open>Text operations\<close>

text \<open>
  \<^verbatim>\<open>str.strip()\<close> and \<^verbatim>\<open>str.lower()\<close> are methods of Python's string type. They
  work on Unicode text (strip removes every Unicode whitespace character from both ends,
  lower follows the Unicode case mapping), and their tables are not part of the
  repository: the two methods are the fields of a parameter \<open>py\<close> of everything that
  calls them.
\<close>

record str_methods =
  str_strip :: "string \<Rightarrow> string"
  str_lower :: "string \<Rightarrow> string"

text \<open>\<^verbatim>\<open>str(n)\<close> of an integer, as an f-string writes it.\<close>

definition digit_char :: "nat \<Rightarrow> char" where
  "digit_char d = char_of (48 + d)"

fun str_nat :: "nat \<Rightarrow> string" where
  "str_nat n = (if n < 10 then [digit_char n] else str_nat (n div 10) @ [digit_char (n mod 10)])"

declare str_nat.simps [simp del]

definition str_int :: "int \<Rightarrow> string" where
  "str_int i = (if i < 0 then CHR ''-'' # str_nat (nat (- i)) else str_nat (nat i))"

section \<open>The Prediction Gateway call and what the page shows\<close>

definition API_BASE :: string where
  "API_BASE = ''https://y-trust-003-51424904642.europe-west1.run.app''"

record request =
  url :: string
  recipe_name :: string

record match_row =
  searched_ingredient :: string
  matched_product :: string
  match_score :: real
  energy_kcal_100g :: real
  carbohydrates_100g :: real
  proteins_100g :: real
  fat_100g :: real

record payload =
  ingredients :: "string list"
  matches :: "match_row list"

text \<open>
  A response of the gateway. \<open>json\<close> is what \<^verbatim>\<open>response.json()\<close> and the two key
  lookups give: the payload, or the text of the exception when the body is not that
  JSON.
\<close>

record response =
  status_code :: int
  resp_text :: string
  json :: "string + payload"

text \<open>
  What a run shows, in order. The four message boxes carry their text; the navigation
  panel, the metric cards, the table and the charts with the export buttons are
  presentation and are one event each.
\<close>

datatype ui_event =
    Success string | Warning string | Error string | Info string
  | MenuPanel | MetricCards | MatchTable | ChartsAndExport

definition matched_msg :: "string \<Rightarrow> string" where
  "matched_msg m = [CHR 0xE2, CHR 0x9C, CHR 0x85] @ '' Matched recipe: **'' @ m @ ''**''"

definition found_msg :: "nat \<Rightarrow> string \<Rightarrow> string" where
  "found_msg n m =
     [CHR 0xF0, CHR 0x9F, CHR 0x8C, CHR 0xB1] @ '' Found '' @ str_int (int n)
       @ '' matches for '' @ [CHR 0x27] @ m @ [CHR 0x27]"

definition api_error_msg :: "int \<Rightarrow> string \<Rightarrow> string" where
  "api_error_msg code body =
     [CHR 0xF0, CHR 0x9F, CHR 0x9A, CHR 0xAB] @ '' API error '' @ str_int code @ '': '' @ body"

definition went_wrong_msg :: "string \<Rightarrow> string" where
  "went_wrong_msg e = [CHR 0xF0, CHR 0x9F, CHR 0x9A, CHR 0xA8] @ '' Something went wrong: '' @ e"

text \<open>The body of the POST: \<^verbatim>\<open>json={"recipe_name": name.strip().lower()}\<close>.\<close>

definition predict_request :: "str_methods \<Rightarrow> string \<Rightarrow> request" where
  "predict_request py name =
     \<lparr>url = API_BASE @ ''/ingredients/predict'',
      recipe_name = str_lower py (str_strip py name)\<rparr>"

text \<open>
  The \<^verbatim>\<open>try\<close> block both scripts share (app3.py lines 119 to 196, app2.py lines 111 to
  187). \<open>gateway\<close> is the remote service as \<^verbatim>\<open>requests.post\<close> reaches it: a response,
  or the text of the exception a failed connection raises. \<open>render\<close> is what the script
  shows for a payload. The result is the requests that were sent and the events shown.
\<close>

definition analyze ::
  "str_methods \<Rightarrow> (request \<Rightarrow> string + response) \<Rightarrow> (payload \<Rightarrow> ui_event list) \<Rightarrow> string
     \<Rightarrow> request list \<times> ui_event list" where
  "analyze py gateway render name =
     (let req = predict_request py name
      in ([req],
          (case gateway req of
             Inl e \<Rightarrow> [Error (went_wrong_msg e)]
           | Inr resp \<Rightarrow>
               if status_code resp = 200
               then (case json resp of
                       Inl e \<Rightarrow> [Error (went_wrong_msg e)]
                     | Inr data \<Rightarrow> render data)
               else [Error (api_error_msg (status_code resp) (resp_text resp))])))"

datatype tab3 = MatchedIngredients | NutritionVisuals

definition render3 :: "tab3 \<Rightarrow> string \<Rightarrow> payload \<Rightarrow> ui_event list" where
  "render3 selected_tab matched data =
     (if matches data = [] then [Warning ''No matches found.'']
      else [Success (found_msg (length (matches data)) matched), MetricCards,
            (case selected_tab of
               MatchedIngredients \<Rightarrow> MatchTable
             | NutritionVisuals \<Rightarrow> ChartsAndExport)])"

datatype tab2 = IngredientMatching | NutritionDetails

definition render2 :: "tab2 \<Rightarrow> string \<Rightarrow> payload \<Rightarrow> ui_event list" where
  "render2 selected_tab name data =
     (if matches data = [] then [Warning ''No matches found.'']
      else (case selected_tab of
              IngredientMatching \<Rightarrow>
                [Success (found_msg (length (matches data)) name), MetricCards, MatchTable]
            | NutritionDetails \<Rightarrow> [ChartsAndExport]))"

section \<open>The script app3.py\<close>

text \<open>
  What one run of app3.py reads: the \<^verbatim>\<open>show_menu\<close> entry of the session state (absent
  on the first run), whether the menu button was pressed, the outcome of reading the
  recipe file, the text typed into the query field and the selected view.
\<close>

record inputs3 =
  session_show_menu :: "bool option"
  menu_clicked :: bool
  recipes_csv :: "py_exception + dataframe"
  user_query :: string
  selected_tab3 :: tab3

text \<open>What the script holds in memory after lines 22 to 104.\<close>

record app_state =
  show_menu :: bool
  recipe_names :: "string list"
  recipe_embeddings :: "vec list"

text \<open>
  Lines 22 to 104. A cell without a value would come out of \<^verbatim>\<open>tolist\<close> as a float,
  which the encoder refuses with a TypeError; \<open>those\<close> is that check.
\<close>

definition startup ::
  "(string \<Rightarrow> vec) \<Rightarrow> inputs3 \<Rightarrow> py_exception + app_state" where
  "startup enc inp =
     (let menu0 = (case session_show_menu inp of None \<Rightarrow> False | Some b \<Rightarrow> b);
          menu = (if menu_clicked inp then \<not> menu0 else menu0)
      in case load_recipes (recipes_csv inp) of
           Inl e \<Rightarrow> Inl e
         | Inr df_recipes \<Rightarrow>
             (case column_tolist ''name'' df_recipes of
                Inl e \<Rightarrow> Inl e
              | Inr cells \<Rightarrow>
                  (case those cells of
                     None \<Rightarrow> Inl (Raised ''TypeError'')
                   | Some names \<Rightarrow>
                       Inr \<lparr>show_menu = menu, recipe_names = names,
                            recipe_embeddings = encode_many enc names\<rparr>)))"

text \<open>
  The outcome of a run that no exception ended: the memory, the variables of the
  resolution when there was a query, the requests sent to the gateway, and the events.
\<close>

record outcome =
  state :: app_state
  resolved :: "resolution option"
  posted :: "request list"
  events :: "ui_event list"

definition enter_craving_msg :: string where
  "enter_craving_msg =
     [CHR 0xF0, CHR 0x9F, CHR 0x8C, CHR 0xBF] @ '' Enter your craving to begin analysis.''"

definition app3 ::
  "(string \<Rightarrow> vec) \<Rightarrow> (vec \<Rightarrow> vec \<Rightarrow> real) \<Rightarrow> str_methods
     \<Rightarrow> (request \<Rightarrow> string + response) \<Rightarrow> inputs3 \<Rightarrow> py_exception + outcome" where
  "app3 enc sim py gateway inp =
     (case startup enc inp of
        Inl e \<Rightarrow> Inl e
      | Inr st \<Rightarrow>
          (let menu = (if show_menu st then [MenuPanel] else [])
           in if user_query inp = []
              then Inr \<lparr>state = st, resolved = None, posted = [],
                        events = menu @ [Info enter_craving_msg]\<rparr>
              else (case resolve enc sim (recipe_names st) (recipe_embeddings st)
                           (user_query inp) of
                      Inl e \<Rightarrow> Inl e
                    | Inr r \<Rightarrow>
                        (let (reqs, evs) =
                               analyze py gateway (render3 (selected_tab3 inp) (matched_recipe r))
                                 (matched_recipe r)
                         in Inr \<lparr>state = st, resolved = Some r, posted = reqs,
                                  events = menu @ [Success (matched_msg (matched_recipe r))]
                                    @ evs\<rparr>))))"

section \<open>The output column of app2.py\<close>

text \<open>
  app2.py takes the recipe name from a select box (lines 106 to 189): \<open>None\<close> when the
  box has no option, and like the empty text it starts no analysis.
\<close>

definition enter_name_msg :: string where
  "enter_name_msg =
     [CHR 0xF0, CHR 0x9F, CHR 0x8C, CHR 0xBF] @ '' Enter a recipe name above to begin analysis.''"

definition app2_output ::
  "str_methods \<Rightarrow> (request \<Rightarrow> string + response) \<Rightarrow> tab2 \<Rightarrow> string option
     \<Rightarrow> request list \<times> ui_event list" where
  "app2_output py gateway selected_tab selection =
     (case selection of
        None \<Rightarrow> ([], [Info enter_name_msg])
      | Some name \<Rightarrow>
          if name = [] then ([], [Info enter_name_msg])
          else analyze py gateway (render2 selected_tab name) name)"

section \<open>A sample run\<close>

text \<open>
  A recipe file of three rows, the second without a name, a two-component encoder, the
  dot product as similarity, the string methods on ASCII text and a gateway that answers
  404: the inputs at which the theorems below are instantiated.
\<close>

definition sample_frame :: dataframe where
  "sample_frame =
     \<lparr>columns = [''name'', ''minutes''],
      rows = [[''name'' \<mapsto> ''Soup'', ''minutes'' \<mapsto> ''30''],
              [''minutes'' \<mapsto> ''5''],
              [''name'' \<mapsto> '' Apple Pie '']]\<rparr>"

definition sample_enc :: "string \<Rightarrow> vec" where
  "sample_enc t = [real (length t), 1]"

definition sample_sim :: "vec \<Rightarrow> vec \<Rightarrow> real" where
  "sample_sim a b = sum_list (map2 (*) a b)"

definition sample_inputs :: inputs3 where
  "sample_inputs =
     \<lparr>session_show_menu = None, menu_clicked = False, recipes_csv = Inr sample_frame,
      user_query = ''pie'', selected_tab3 = MatchedIngredients\<rparr>"

text \<open>
  The names of the sample are ASCII text. There \<^verbatim>\<open>strip\<close> removes tab, line feed,
  vertical tab, form feed, carriage return, the separators 0x1C to 0x1F and the space from
  both ends, and \<^verbatim>\<open>lower\<close> maps the letters A to Z to a to z; \<open>sample_str\<close> is the
  two methods so restricted.
\<close>

definition ascii_isspace :: "char \<Rightarrow> bool" where
  "ascii_isspace c =
     (let n = (of_char c :: nat) in (9 \<le> n \<and> n \<le> 13) \<or> (28 \<le> n \<and> n \<le> 32))"

definition ascii_strip :: "string \<Rightarrow> string" where
  "ascii_strip s = rev (dropWhile ascii_isspace (rev (dropWhile ascii_isspace s)))"

definition ascii_lower_char :: "char \<Rightarrow> char" where
  "ascii_lower_char c =
     (let n = (of_char c :: nat) in if 65 \<le> n \<and> n \<le> 90 then char_of (n + 32) else c)"

definition ascii_lower :: "string \<Rightarrow> string" where
  "ascii_lower s = map ascii_lower_char s"

definition sample_str :: str_methods where
  "sample_str = \<lparr>str_strip = ascii_strip, str_lower = ascii_lower\<rparr>"

definition sample_gateway :: "request \<Rightarrow> string + response" where
  "sample_gateway req =
     Inr \<lparr>status_code = 404, resp_text = ''Recipe not found'', json = Inl ''no JSON''\<rparr>"

section \<open>Facts about the scan\<close>

lemma scan_max_inv:
  assumes "length pre = i" and "bi < i" and "pre ! bi = bv"
    and "\<forall>j<i. pre ! j \<le> bv" and "\<forall>j<bi. pre ! j < bv"
  shows "scan_max bi bv i xs < length (pre @ xs)
       \<and> (\<forall>j<length (pre @ xs). (pre @ xs) ! j \<le> (pre @ xs) ! scan_max bi bv i xs)
       \<and> (\<forall>j<scan_max bi bv i xs. (pre @ xs) ! j < (pre @ xs) ! scan_max bi bv i xs)"
  using assms
proof (induction xs arbitrary: pre bi bv i)
  case Nil
  then show ?case by simp
next
  case (Cons x xs)
  have app: "pre @ x # xs = (pre @ [x]) @ xs" by simp
  have len: "length (pre @ [x]) = Suc i" using Cons.prems(1) by simp
  show ?case
  proof (cases "bv < x")
    case True
    have a: "i < Suc i" by simp
    have b: "(pre @ [x]) ! i = x" using Cons.prems(1) by (simp add: nth_append)
    have c: "\<forall>j<Suc i. (pre @ [x]) ! j \<le> x"
      using Cons.prems(1,4) True by (auto simp: nth_append less_Suc_eq)
    have d: "\<forall>j<i. (pre @ [x]) ! j < x"
      using Cons.prems(1,4) True by (auto simp: nth_append)
    from Cons.IH [OF len a b c d] True show ?thesis
      unfolding app by simp
  next
    case False
    have a: "bi < Suc i" using Cons.prems(2) by simp
    have b: "(pre @ [x]) ! bi = bv" using Cons.prems(1,2,3) by (simp add: nth_append)
    have c: "\<forall>j<Suc i. (pre @ [x]) ! j \<le> bv"
      using Cons.prems(1,4) False by (auto simp: nth_append less_Suc_eq)
    have d: "\<forall>j<bi. (pre @ [x]) ! j < bv"
      using Cons.prems(1,2,5) by (auto simp: nth_append)
    from Cons.IH [OF len a b c d] False show ?thesis
      unfolding app by simp
  qed
qed

lemma argmax_nonempty:
  assumes "xs \<noteq> []"
  shows "\<exists>i. argmax xs = Inr i \<and> i < length xs \<and> (\<forall>j<length xs. xs ! j \<le> xs ! i)
           \<and> (\<forall>j<i. xs ! j < xs ! i)"
proof -
  from assms obtain x rest where xs: "xs = x # rest" by (cases xs) auto
  have "scan_max 0 x 1 rest < length ([x] @ rest)
       \<and> (\<forall>j<length ([x] @ rest). ([x] @ rest) ! j \<le> ([x] @ rest) ! scan_max 0 x 1 rest)
       \<and> (\<forall>j<scan_max 0 x 1 rest. ([x] @ rest) ! j < ([x] @ rest) ! scan_max 0 x 1 rest)"
    by (rule scan_max_inv) auto
  then show ?thesis by (simp add: xs argmax_def)
qed

lemma resolve_empty_index: "resolve enc sim names [] q = Inl (Raised ''RuntimeError'')"
  by (simp add: resolve_def pytorch_cos_sim_row_def)

lemma resolve_aligned:
  assumes ne: "names \<noteq> []" and len: "length idx = length names"
  shows "\<exists>bi. bi < length names
           \<and> (\<forall>j<length idx. map (sim (enc q)) idx ! j \<le> map (sim (enc q)) idx ! bi)
           \<and> (\<forall>j<bi. map (sim (enc q)) idx ! j < map (sim (enc q)) idx ! bi)
           \<and> resolve enc sim names idx q =
               Inr \<lparr>query_embedding = enc q, scores = map (sim (enc q)) idx, best_index = bi,
                    matched_recipe = names ! bi\<rparr>"
proof -
  let ?sc = "map (sim (enc q)) idx"
  from ne len have ine: "idx \<noteq> []" by auto
  then have "?sc \<noteq> []" by simp
  from argmax_nonempty [OF this] obtain bi where
    a: "argmax ?sc = Inr bi" and b: "bi < length ?sc"
    and c: "\<forall>j<length ?sc. ?sc ! j \<le> ?sc ! bi" and d: "\<forall>j<bi. ?sc ! j < ?sc ! bi"
    by blast
  from b len have bl: "bi < length names" by simp
  have "resolve enc sim names idx q =
          Inr \<lparr>query_embedding = enc q, scores = ?sc, best_index = bi,
               matched_recipe = names ! bi\<rparr>"
    using a bl ine by (simp add: resolve_def pytorch_cos_sim_row_def py_index_def Let_def)
  with bl c d show ?thesis by auto
qed

lemma resolve_Inr_facts:
  assumes "resolve enc sim names idx q = Inr r"
  shows "query_embedding r = enc q \<and> scores r = map (sim (enc q)) idx
       \<and> argmax (scores r) = Inr (best_index r)
       \<and> best_index r < length names \<and> matched_recipe r = names ! best_index r"
  using assms
  by (auto simp: resolve_def pytorch_cos_sim_row_def py_index_def Let_def
      split: sum.splits if_splits)

section \<open>Facts about loading and the two scripts\<close>

lemma those_present:
  "those (filter (\<lambda>c. c \<noteq> None) cs) = Some (map the (filter (\<lambda>c. c \<noteq> None) cs))"
  by (induction cs) auto

lemma map_Some_the_present:
  "map Some (map the (filter (\<lambda>c. c \<noteq> None) cs)) = filter (\<lambda>c. c \<noteq> None) cs"
  by (induction cs) auto

lemma name_cells_dropna:
  "map (\<lambda>r. r c) (filter (\<lambda>r. r c \<noteq> None) rs) = filter (\<lambda>x. x \<noteq> None) (map (\<lambda>r. r c) rs)"
  by (induction rs) auto

lemma load_recipes_named:
  assumes "''name'' \<in> set (columns df)"
  shows "load_recipes (Inr df) = Inr (df\<lparr>rows := filter (\<lambda>r. r ''name'' \<noteq> None) (rows df)\<rparr>)"
  using assms by (simp add: load_recipes_def dropna_def)

lemma startup_named:
  assumes csv: "recipes_csv inp = Inr df" and col: "''name'' \<in> set (columns df)"
  shows "\<exists>st. startup enc inp = Inr st
           \<and> recipe_names st = map the (filter (\<lambda>c. c \<noteq> None) (map (\<lambda>r. r ''name'') (rows df)))
           \<and> recipe_embeddings st = encode_many enc (recipe_names st)"
proof -
  let ?df = "df\<lparr>rows := filter (\<lambda>r. r ''name'' \<noteq> None) (rows df)\<rparr>"
  let ?cells = "filter (\<lambda>c. c \<noteq> None) (map (\<lambda>r. r ''name'') (rows df))"
  have l: "load_recipes (recipes_csv inp) = Inr ?df"
    unfolding csv using col by (rule load_recipes_named)
  have "column_tolist ''name'' ?df = Inr (map (\<lambda>r. r ''name'') (rows ?df))"
    using col by (simp add: column_tolist_def)
  also have "map (\<lambda>r. r ''name'') (rows ?df) = ?cells"
    using name_cells_dropna [of "''name''" "rows df"] by simp
  finally have t: "column_tolist ''name'' ?df = Inr ?cells" .
  have th: "those ?cells = Some (map the ?cells)" by (rule those_present)
  have "startup enc inp =
      Inr \<lparr>show_menu =
             (if menu_clicked inp
              then \<not> (case session_show_menu inp of None \<Rightarrow> False | Some b \<Rightarrow> b)
              else (case session_show_menu inp of None \<Rightarrow> False | Some b \<Rightarrow> b)),
           recipe_names = map the ?cells,
           recipe_embeddings = encode_many enc (map the ?cells)\<rparr>"
    by (simp only: startup_def Let_def l sum.case t th option.case)
  then show ?thesis by simp
qed

lemma startup_Inr:
  assumes "startup enc inp = Inr st"
  shows "recipe_embeddings st = encode_many enc (recipe_names st)"
  using assms
  by (auto simp: startup_def Let_def split: sum.splits option.splits)

lemma startup_independent:
  assumes "recipes_csv inp1 = recipes_csv inp2"
  shows "map_sum id (\<lambda>st. (recipe_names st, recipe_embeddings st)) (startup enc inp1)
       = map_sum id (\<lambda>st. (recipe_names st, recipe_embeddings st)) (startup enc inp2)"
  using assms
  by (auto simp: startup_def Let_def split: sum.splits option.splits)



lemma analyze_posted: "fst (analyze py gateway render name) = [predict_request py name]"
  by (simp add: analyze_def Let_def)

lemma analyze_non200:
  assumes "gateway (predict_request py name) = Inr resp" and "status_code resp \<noteq> 200"
  shows "analyze py gateway render name =
           ([predict_request py name], [Error (api_error_msg (status_code resp) (resp_text resp))])"
  using assms by (simp add: analyze_def Let_def)

lemma app3_Inr:
  assumes "app3 enc sim py gateway inp = Inr out"
  shows "startup enc inp = Inr (state out)
       \<and> (user_query inp = [] \<longrightarrow> resolved out = None \<and> posted out = [])
       \<and> (user_query inp \<noteq> [] \<longrightarrow>
            (\<exists>r. resolve enc sim (recipe_names (state out)) (recipe_embeddings (state out))
                    (user_query inp) = Inr r
                \<and> resolved out = Some r
                \<and> posted out = [predict_request py (matched_recipe r)]
                \<and> events out = (if show_menu (state out) then [MenuPanel] else [])
                     @ [Success (matched_msg (matched_recipe r))]
                     @ snd (analyze py gateway (render3 (selected_tab3 inp) (matched_recipe r))
                              (matched_recipe r))))"
  using assms
  by (auto simp: app3_def Let_def analyze_posted split_beta split: sum.splits if_splits)

lemma app3_query:
  assumes st: "startup enc inp = Inr st" and q: "user_query inp \<noteq> []"
    and r: "resolve enc sim (recipe_names st) (recipe_embeddings st) (user_query inp) = Inr r"
  shows "app3 enc sim py gateway inp =
           Inr \<lparr>state = st, resolved = Some r, posted = [predict_request py (matched_recipe r)],
                events = (if show_menu st then [MenuPanel] else [])
                  @ [Success (matched_msg (matched_recipe r))]
                  @ snd (analyze py gateway (render3 (selected_tab3 inp) (matched_recipe r))
                           (matched_recipe r))\<rparr>"
  using q by (simp add: app3_def st r Let_def split_beta analyze_posted)

lemma app3_resolve_fails:
  assumes st: "startup enc inp = Inr st" and q: "user_query inp \<noteq> []"
    and r: "resolve enc sim (recipe_names st) (recipe_embeddings st) (user_query inp) = Inl e"
  shows "app3 enc sim py gateway inp = Inl e"
  using q by (simp add: app3_def st r Let_def)

lemma sample_startup:
  "startup sample_enc sample_inputs =
     Inr \<lparr>show_menu = False, recipe_names = [''Soup'', '' Apple Pie ''],
          recipe_embeddings = [[4, 1], [11, 1]]\<rparr>"
  by (simp add: startup_def sample_inputs_def sample_frame_def load_recipes_def dropna_def
      column_tolist_def encode_many_def sample_enc_def Let_def)

lemma sample_resolve:
  "resolve sample_enc sample_sim [''Soup'', '' Apple Pie ''] [[4, 1], [11, 1]] ''pie'' =
     Inr \<lparr>query_embedding = [3, 1], scores = [13, 34], best_index = 1,
          matched_recipe = '' Apple Pie ''\<rparr>"
  by (simp add: resolve_def pytorch_cos_sim_row_def argmax_def py_index_def sample_enc_def
      sample_sim_def Let_def)

lemma sample_run:
  "app3 sample_enc sample_sim sample_str sample_gateway sample_inputs =
     Inr \<lparr>state = \<lparr>show_menu = False, recipe_names = [''Soup'', '' Apple Pie ''],
                     recipe_embeddings = [[4, 1], [11, 1]]\<rparr>,
          resolved = Some \<lparr>query_embedding = [3, 1], scores = [13, 34], best_index = 1,
                           matched_recipe = '' Apple Pie ''\<rparr>,
          posted = [predict_request sample_str '' Apple Pie ''],
          events = [Success (matched_msg '' Apple Pie ''),
                    Error (api_error_msg 404 ''Recipe not found'')]\<rparr>"
  using app3_query [OF sample_startup, where sim = sample_sim and py = sample_str
      and gateway = sample_gateway
      and r = "\<lparr>query_embedding = [3, 1], scores = [13, 34], best_index = 1,
                matched_recipe = '' Apple Pie ''\<rparr>"]
  by (simp add: sample_resolve analyze_def sample_gateway_def Let_def sample_inputs_def)

lemma sample_startup_empty:
  "startup sample_enc (sample_inputs\<lparr>recipes_csv := Inr \<lparr>columns = [''name''], rows = []\<rparr>\<rparr>) =
     Inr \<lparr>show_menu = False, recipe_names = [], recipe_embeddings = []\<rparr>"
  by (simp add: startup_def sample_inputs_def load_recipes_def dropna_def
      column_tolist_def encode_many_def Let_def)


section \<open>The Query Resolver\<close>

text \<open>
  Claim C1. For a non-empty query and a non-empty catalog with an index of the same
  length, the block of lines 111 to 114 encodes the query, scores it against every vector
  of the index, and binds \<open>matched_recipe\<close> to the catalog entry at \<open>best_index\<close>, a
  position whose score no other position exceeds. The score of the match,
  \<open>scores ! best_index\<close>, is the greatest of the scores.
\<close>

theorem resolve_best_match:
  assumes "q \<noteq> []" and "names \<noteq> []" and "length idx = length names"
  shows "\<exists>r. resolve enc sim names idx q = Inr r
           \<and> query_embedding r = enc q
           \<and> scores r = map (sim (enc q)) idx
           \<and> best_index r < length names
           \<and> (\<forall>j<length idx. scores r ! j \<le> scores r ! best_index r)
           \<and> scores r ! best_index r = Max (set (scores r))
           \<and> matched_recipe r = names ! best_index r"
proof -
  let ?sc = "map (sim (enc q)) idx"
  from resolve_aligned [OF assms(2,3), of sim enc q] obtain bi where
    bi: "bi < length names" and top: "\<forall>j<length idx. ?sc ! j \<le> ?sc ! bi"
    and r: "resolve enc sim names idx q =
        Inr \<lparr>query_embedding = enc q, scores = ?sc, best_index = bi,
             matched_recipe = names ! bi\<rparr>"
    by blast
  have "Max (set ?sc) = ?sc ! bi"
  proof (rule Max_eqI)
    show "finite (set ?sc)" by simp
    have "bi < length ?sc" using bi assms(3) by simp
    then show "?sc ! bi \<in> set ?sc" by (rule nth_mem)
    fix y assume "y \<in> set ?sc"
    then obtain j where "j < length ?sc" and "?sc ! j = y" by (auto simp: in_set_conv_nth)
    with top show "y \<le> ?sc ! bi" by auto
  qed
  with bi top r show ?thesis by simp
qed

theorem resolve_best_match_witness:
  "\<exists>r. resolve (\<lambda>t. [real (length t)]) (\<lambda>a b. hd a * hd b) [''soup'', ''pie'', ''salad'']
          [[2], [5], [3]] ''light'' = Inr r
       \<and> scores r = [10, 25, 15] \<and> best_index r = 1 \<and> scores r ! best_index r = 25
       \<and> matched_recipe r = ''pie''"
proof -
  have a: "''light'' \<noteq> []" by simp
  have b: "[''soup'', ''pie'', ''salad''] \<noteq> []" by simp
  have c: "length [[2], [5], [3::real]] = length [''soup'', ''pie'', ''salad'']" by simp
  from resolve_best_match [OF a b c, where sim = "\<lambda>a b. hd a * hd b"
      and enc = "\<lambda>t. [real (length t)]"]
  obtain r where r: "resolve (\<lambda>t. [real (length t)]) (\<lambda>a b. hd a * hd b)
        [''soup'', ''pie'', ''salad''] [[2], [5], [3]] ''light'' = Inr r" by blast
  then show ?thesis
    by (auto simp: resolve_def pytorch_cos_sim_row_def argmax_def py_index_def)
qed

text \<open>
  Claim C2. When several positions hold the greatest score, the selected position is the
  lowest of them: its score is the greatest one, every position before it scores strictly
  less, and so it is at or before every position \<open>i\<close> whose score is maximal. For the
  catalog Soup, Stew with equal scores the match is Soup.
\<close>

theorem resolve_tie_lowest_position:
  assumes res: "resolve enc sim names idx q = Inr r"
    and i: "i < length idx"
    and top: "\<forall>j<length idx. scores r ! j \<le> scores r ! i"
  shows "best_index r < length idx
       \<and> (\<forall>j<length idx. scores r ! j \<le> scores r ! best_index r)
       \<and> scores r ! best_index r = scores r ! i
       \<and> best_index r \<le> i
       \<and> (\<forall>j<best_index r. scores r ! j < scores r ! best_index r)
       \<and> matched_recipe r = names ! best_index r"
proof -
  note facts = resolve_Inr_facts [OF res]
  from facts have sc: "scores r = map (sim (enc q)) idx" by blast
  from facts have am: "argmax (scores r) = Inr (best_index r)" by blast
  from facts have m: "matched_recipe r = names ! best_index r" by blast
  from sc have len: "length (scores r) = length idx" by simp
  from i len have ne: "scores r \<noteq> []" by auto
  from argmax_nonempty [OF ne] am have bl: "best_index r < length (scores r)"
    and mx: "\<forall>j<length (scores r). scores r ! j \<le> scores r ! best_index r"
    and first: "\<forall>j<best_index r. scores r ! j < scores r ! best_index r" by auto
  from mx i len have "scores r ! i \<le> scores r ! best_index r" by simp
  moreover from top bl len have "scores r ! best_index r \<le> scores r ! i" by simp
  ultimately have eq: "scores r ! best_index r = scores r ! i" by simp
  have "\<not> i < best_index r"
  proof
    assume "i < best_index r"
    with first have "scores r ! i < scores r ! best_index r" by simp
    with eq show False by simp
  qed
  with bl mx first eq m len show ?thesis by simp
qed

theorem resolve_tie_lowest_position_witness:
  "resolve (\<lambda>t. [1]) (\<lambda>a b. hd a * hd b) [''Soup'', ''Stew'', ''Chili''] [[1], [9], [9]] ''warm'' =
     Inr \<lparr>query_embedding = [1], scores = [1, 9, 9], best_index = 1, matched_recipe = ''Stew''\<rparr>
   \<and> best_index \<lparr>query_embedding = [1], scores = [1, 9, 9], best_index = 1,
         matched_recipe = ''Stew''\<rparr> \<le> 2
   \<and> resolve (\<lambda>t. [1]) (\<lambda>a b. hd a * hd b) [''Soup'', ''Stew''] [[3], [3]] ''warm'' =
     Inr \<lparr>query_embedding = [1], scores = [3, 3], best_index = 0, matched_recipe = ''Soup''\<rparr>"
proof -
  let ?r = "\<lparr>query_embedding = [1], scores = [1, 9, 9::real], best_index = 1,
      matched_recipe = ''Stew''\<rparr>"
  have a: "resolve (\<lambda>t. [1]) (\<lambda>a b. hd a * hd b) [''Soup'', ''Stew'', ''Chili'']
      [[1], [9], [9]] ''warm'' = Inr ?r"
    by (simp add: resolve_def pytorch_cos_sim_row_def argmax_def py_index_def)
  have b: "(2::nat) < length [[1], [9], [9::real]]" by simp
  have c: "\<forall>j<length [[1], [9], [9::real]]. scores ?r ! j \<le> scores ?r ! 2"
    by (simp add: less_Suc_eq numeral_3_eq_3)
  have d: "resolve (\<lambda>t. [1]) (\<lambda>a b. hd a * hd b) [''Soup'', ''Stew''] [[3], [3]] ''warm'' =
     Inr \<lparr>query_embedding = [1], scores = [3, 3], best_index = 0, matched_recipe = ''Soup''\<rparr>"
    by (simp add: resolve_def pytorch_cos_sim_row_def argmax_def py_index_def)
  from resolve_tie_lowest_position [OF a b c] a d show ?thesis by simp
qed

text \<open>
  Claim C10. With a non-empty query and a non-empty catalog a run of app3.py always
  resolves to the entry of the catalog at a position of greatest score and announces it as
  the match, whatever the similarity function gives: no score is too low, and there is no
  outcome without a match.
\<close>

theorem nonempty_catalog_always_matches:
  assumes q: "user_query inp \<noteq> []" and st: "startup enc inp = Inr st"
    and ne: "recipe_names st \<noteq> []"
  shows "\<exists>out r. app3 enc sim py gateway inp = Inr out \<and> resolved out = Some r
           \<and> scores r = map (sim (enc (user_query inp))) (recipe_embeddings st)
           \<and> best_index r < length (recipe_names st)
           \<and> (\<forall>j<length (recipe_names st). scores r ! j \<le> scores r ! best_index r)
           \<and> matched_recipe r = recipe_names st ! best_index r
           \<and> matched_recipe r \<in> set (recipe_names st)
           \<and> Success (matched_msg (matched_recipe r)) \<in> set (events out)"
proof -
  have len: "length (recipe_embeddings st) = length (recipe_names st)"
    by (simp add: startup_Inr [OF st] encode_many_def)
  from resolve_aligned [OF ne len, of sim enc "user_query inp"] obtain bi where
    bi: "bi < length (recipe_names st)"
    and top: "\<forall>j<length (recipe_embeddings st).
        map (sim (enc (user_query inp))) (recipe_embeddings st) ! j
          \<le> map (sim (enc (user_query inp))) (recipe_embeddings st) ! bi"
    and r: "resolve enc sim (recipe_names st) (recipe_embeddings st) (user_query inp) =
        Inr \<lparr>query_embedding = enc (user_query inp),
             scores = map (sim (enc (user_query inp))) (recipe_embeddings st),
             best_index = bi, matched_recipe = recipe_names st ! bi\<rparr>"
    by blast
  from app3_query [OF st q r, where py = py and gateway = gateway] bi top len
  show ?thesis by simp
qed

theorem nonempty_catalog_always_matches_witness:
  "\<exists>out r. app3 sample_enc (\<lambda>a b. - 1) sample_str sample_gateway sample_inputs = Inr out
      \<and> resolved out = Some r \<and> scores r = [- 1, - 1] \<and> matched_recipe r = ''Soup''
      \<and> Success (matched_msg ''Soup'') \<in> set (events out)"
proof -
  have q: "user_query sample_inputs \<noteq> []" by (simp add: sample_inputs_def)
  have ne: "recipe_names \<lparr>show_menu = False, recipe_names = [''Soup'', '' Apple Pie ''],
      recipe_embeddings = [[4, 1], [11, 1]]\<rparr> \<noteq> []" by simp
  have res: "resolve sample_enc (\<lambda>a b. - 1) [''Soup'', '' Apple Pie ''] [[4, 1], [11, 1]] ''pie'' =
      Inr \<lparr>query_embedding = [3, 1], scores = [- 1, - 1], best_index = 0,
           matched_recipe = ''Soup''\<rparr>"
    by (simp add: resolve_def pytorch_cos_sim_row_def argmax_def py_index_def sample_enc_def
        Let_def)
  from nonempty_catalog_always_matches [OF q sample_startup ne, where sim = "\<lambda>a b. - 1"
      and py = sample_str and gateway = sample_gateway]
  obtain out r where a: "app3 sample_enc (\<lambda>a b. - 1) sample_str sample_gateway sample_inputs = Inr out"
    and b: "resolved out = Some r"
    and c: "Success (matched_msg (matched_recipe r)) \<in> set (events out)" by auto
  let ?st = "\<lparr>show_menu = False, recipe_names = [''Soup'', '' Apple Pie ''],
      recipe_embeddings = [[4, 1], [11, 1]]\<rparr>"
  have res': "resolve sample_enc (\<lambda>a b. - 1) (recipe_names ?st) (recipe_embeddings ?st)
      (user_query sample_inputs) =
      Inr \<lparr>query_embedding = [3, 1], scores = [- 1, - 1], best_index = 0,
           matched_recipe = ''Soup''\<rparr>"
    using res by (simp add: sample_inputs_def)
  from app3_query [OF sample_startup q res', where py = sample_str
      and gateway = sample_gateway] a b
  have "r = \<lparr>query_embedding = [3, 1], scores = [- 1, - 1], best_index = 0,
           matched_recipe = ''Soup''\<rparr>"
    by auto
  with a b c show ?thesis by auto
qed

text \<open>
  Claim C3, as amended. With a non-empty query and a catalog of zero entries the
  resolution, and with it the run, ends with the RuntimeError of the tensor library, which
  nothing catches. The script has no check for an empty catalog and no EmptyCatalogError;
  no default result is produced.
\<close>

theorem empty_catalog_raises_runtime_error:
  assumes q: "user_query inp \<noteq> []" and st: "startup enc inp = Inr st"
    and e: "recipe_names st = []"
  shows "resolve enc sim (recipe_names st) (recipe_embeddings st) (user_query inp)
           = Inl (Raised ''RuntimeError'')
       \<and> app3 enc sim py gateway inp = Inl (Raised ''RuntimeError'')"
proof -
  have idx: "recipe_embeddings st = []"
    by (simp add: startup_Inr [OF st] e encode_many_def)
  have r: "resolve enc sim (recipe_names st) (recipe_embeddings st) (user_query inp)
      = Inl (Raised ''RuntimeError'')"
    unfolding idx by (rule resolve_empty_index)
  from r app3_resolve_fails [OF st q r] show ?thesis by simp
qed

theorem empty_catalog_raises_runtime_error_witness:
  "app3 sample_enc sample_sim sample_str sample_gateway
     (sample_inputs\<lparr>recipes_csv := Inr \<lparr>columns = [''name''], rows = []\<rparr>\<rparr>)
   = Inl (Raised ''RuntimeError'')"
proof -
  have q: "user_query (sample_inputs\<lparr>recipes_csv := Inr \<lparr>columns = [''name''], rows = []\<rparr>\<rparr>) \<noteq> []"
    by (simp add: sample_inputs_def)
  have e: "recipe_names \<lparr>show_menu = False, recipe_names = [], recipe_embeddings = []\<rparr> = []"
    by simp
  from empty_catalog_raises_runtime_error [OF q sample_startup_empty e] show ?thesis by simp
qed

text \<open>
  Claim C3 as stated fails: the exception of the run over an empty catalog is not an
  EmptyCatalogError.
\<close>

theorem empty_catalog_not_EmptyCatalogError:
  "app3 sample_enc sample_sim sample_str sample_gateway
     (sample_inputs\<lparr>recipes_csv := Inr \<lparr>columns = [''name''], rows = []\<rparr>\<rparr>)
   \<noteq> Inl (Raised ''EmptyCatalogError'')"
proof -
  have q: "user_query (sample_inputs\<lparr>recipes_csv := Inr \<lparr>columns = [''name''], rows = []\<rparr>\<rparr>) \<noteq> []"
    by (simp add: sample_inputs_def)
  have "resolve sample_enc sample_sim [] [] ''pie'' = Inl (Raised ''RuntimeError'')"
    by (rule resolve_empty_index)
  with app3_resolve_fails [OF sample_startup_empty q, where sim = sample_sim
      and e = "Raised ''RuntimeError''" and py = sample_str and gateway = sample_gateway]
  have "app3 sample_enc sample_sim sample_str sample_gateway
     (sample_inputs\<lparr>recipes_csv := Inr \<lparr>columns = [''name''], rows = []\<rparr>\<rparr>)
     = Inl (Raised ''RuntimeError'')"
    by (simp add: sample_inputs_def)
  then show ?thesis by simp
qed

section \<open>The catalog and the index\<close>

text \<open>
  Claim C4. After lines 101 to 104 the index has as many vectors as the catalog has names,
  the vector at each position is the encoding of the name at that position, and every run
  that completes ends with this catalog and this index as they were built.
\<close>

theorem index_aligned_with_catalog:
  assumes st: "startup enc inp = Inr st"
  shows "length (recipe_embeddings st) = length (recipe_names st)
       \<and> (\<forall>i<length (recipe_names st). recipe_embeddings st ! i = enc (recipe_names st ! i))
       \<and> (case app3 enc sim py gateway inp of Inl e \<Rightarrow> True | Inr out \<Rightarrow> state out = st)"
proof -
  have idx: "recipe_embeddings st = map enc (recipe_names st)"
    using startup_Inr [OF st] by (simp add: encode_many_def)
  have "state out = st" if "app3 enc sim py gateway inp = Inr out" for out
    using app3_Inr [OF that] st by simp
  then have "case app3 enc sim py gateway inp of Inl e \<Rightarrow> True | Inr out \<Rightarrow> state out = st"
    by (simp split: sum.split)
  with idx show ?thesis by simp
qed

theorem index_aligned_with_catalog_witness:
  "length [[4, 1], [11, 1 :: real]] = length [''Soup'', '' Apple Pie '']
   \<and> [[4, 1], [11, 1]] ! 1 = sample_enc ([''Soup'', '' Apple Pie ''] ! 1)
   \<and> state (projr (app3 sample_enc sample_sim sample_str sample_gateway sample_inputs)) =
       \<lparr>show_menu = False, recipe_names = [''Soup'', '' Apple Pie ''],
        recipe_embeddings = [[4, 1], [11, 1]]\<rparr>"
  using index_aligned_with_catalog [OF sample_startup, where sim = sample_sim
      and py = sample_str and gateway = sample_gateway]
  by (simp add: sample_run sample_enc_def)

text \<open>
  Claim C5. For a recipe file with a name column, \<open>load_recipes\<close> keeps exactly the rows
  that have a name, in their order, and the catalog is the names of those rows: the name
  cells of the file with the missing ones removed.
\<close>

theorem load_recipes_drops_missing_names:
  assumes csv: "recipes_csv inp = Inr df" and col: "''name'' \<in> set (columns df)"
  shows "\<exists>df' st. load_recipes (recipes_csv inp) = Inr df'
           \<and> rows df' = filter (\<lambda>r. r ''name'' \<noteq> None) (rows df)
           \<and> column_tolist ''name'' df' =
               Inr (filter (\<lambda>c. c \<noteq> None) (map (\<lambda>r. r ''name'') (rows df)))
           \<and> startup enc inp = Inr st
           \<and> map Some (recipe_names st) =
               filter (\<lambda>c. c \<noteq> None) (map (\<lambda>r. r ''name'') (rows df))"
proof -
  let ?df = "df\<lparr>rows := filter (\<lambda>r. r ''name'' \<noteq> None) (rows df)\<rparr>"
  let ?cells = "filter (\<lambda>c. c \<noteq> None) (map (\<lambda>r. r ''name'') (rows df))"
  have l: "load_recipes (recipes_csv inp) = Inr ?df"
    unfolding csv using col by (rule load_recipes_named)
  have "column_tolist ''name'' ?df = Inr (map (\<lambda>r. r ''name'') (rows ?df))"
    using col by (simp add: column_tolist_def)
  also have "map (\<lambda>r. r ''name'') (rows ?df) = ?cells"
    using name_cells_dropna [of "''name''" "rows df"] by simp
  finally have t: "column_tolist ''name'' ?df = Inr ?cells" .
  from startup_named [OF csv col, of enc] obtain st where
    s: "startup enc inp = Inr st" and n: "recipe_names st = map the ?cells" by blast
  have "map Some (recipe_names st) = ?cells"
    unfolding n by (rule map_Some_the_present)
  with l t s show ?thesis by auto
qed

theorem load_recipes_drops_missing_names_witness:
  "\<exists>st. startup sample_enc sample_inputs = Inr st
       \<and> map Some (recipe_names st) = [Some ''Soup'', Some '' Apple Pie '']"
proof -
  have csv: "recipes_csv sample_inputs = Inr sample_frame" by (simp add: sample_inputs_def)
  have col: "''name'' \<in> set (columns sample_frame)" by (simp add: sample_frame_def)
  from load_recipes_drops_missing_names [OF csv col, of sample_enc]
  show ?thesis by (auto simp: sample_frame_def)
qed



section \<open>The call to the Prediction Gateway\<close>



text \<open>
  Claim C9. When the gateway answers with a status other than 200, the run shows one error
  message made of the status code and the body of the response as they came, has sent the
  one request and no second one, and ends with the catalog and the index that the start
  of the run built. The same holds for the output column of app2.py.
\<close>

theorem non200_response_surfaced:
  assumes run: "app3 enc sim py gateway inp = Inr out" and r: "resolved out = Some r"
    and resp: "gateway (predict_request py (matched_recipe r)) = Inr resp"
    and code: "status_code resp \<noteq> 200"
  shows "events out = (if show_menu (state out) then [MenuPanel] else [])
            @ [Success (matched_msg (matched_recipe r)),
               Error ([CHR 0xF0, CHR 0x9F, CHR 0x9A, CHR 0xAB] @ '' API error ''
                        @ str_int (status_code resp) @ '': '' @ resp_text resp)]
       \<and> posted out = [predict_request py (matched_recipe r)]
       \<and> startup enc inp = Inr (state out)
       \<and> (name \<noteq> [] \<and> gateway2 (predict_request py name) = Inr resp \<longrightarrow>
            app2_output py gateway2 selected_tab (Some name) =
              ([predict_request py name],
               [Error ([CHR 0xF0, CHR 0x9F, CHR 0x9A, CHR 0xAB] @ '' API error ''
                         @ str_int (status_code resp) @ '': '' @ resp_text resp)]))"
proof -
  from app3_Inr [OF run] r have st: "startup enc inp = Inr (state out)"
    and p: "posted out = [predict_request py (matched_recipe r)]"
    and ev: "events out = (if show_menu (state out) then [MenuPanel] else [])
        @ [Success (matched_msg (matched_recipe r))]
        @ snd (analyze py gateway (render3 (selected_tab3 inp) (matched_recipe r))
                 (matched_recipe r))"
    by (cases "user_query inp = []"; auto)+
  have a: "snd (analyze py gateway (render3 (selected_tab3 inp) (matched_recipe r))
                 (matched_recipe r))
      = [Error (api_error_msg (status_code resp) (resp_text resp))]"
    using analyze_non200 [where gateway = gateway and name = "matched_recipe r", OF resp code]
    by simp
  have b: "app2_output py gateway2 selected_tab (Some name) =
      ([predict_request py name], [Error (api_error_msg (status_code resp) (resp_text resp))])"
    if "name \<noteq> []" and "gateway2 (predict_request py name) = Inr resp"
    using that analyze_non200 [where gateway = gateway2 and name = name, OF that(2) code]
    by (simp add: app2_output_def)
  show ?thesis
    unfolding ev a using st p b by (simp add: api_error_msg_def)
qed

theorem non200_response_surfaced_witness:
  "events (projr (app3 sample_enc sample_sim sample_str sample_gateway sample_inputs)) =
     [Success (matched_msg '' Apple Pie ''),
      Error ([CHR 0xF0, CHR 0x9F, CHR 0x9A, CHR 0xAB] @ '' API error 404: Recipe not found'')]
   \<and> posted (projr (app3 sample_enc sample_sim sample_str sample_gateway sample_inputs)) =
       [predict_request sample_str '' Apple Pie '']
   \<and> app2_output sample_str sample_gateway IngredientMatching (Some ''Soup'') =
       ([predict_request sample_str ''Soup''],
        [Error ([CHR 0xF0, CHR 0x9F, CHR 0x9A, CHR 0xAB] @ '' API error 404: Recipe not found'')])"
proof -
  let ?out = "projr (app3 sample_enc sample_sim sample_str sample_gateway sample_inputs)"
  let ?r = "\<lparr>query_embedding = [3, 1], scores = [13, 34], best_index = 1,
      matched_recipe = '' Apple Pie ''\<rparr>"
  let ?resp = "\<lparr>status_code = 404, resp_text = ''Recipe not found'', json = Inl ''no JSON''\<rparr>"
  have run: "app3 sample_enc sample_sim sample_str sample_gateway sample_inputs = Inr ?out"
    by (simp add: sample_run)
  have r: "resolved ?out = Some ?r" by (simp add: sample_run)
  have resp: "sample_gateway (predict_request sample_str (matched_recipe ?r)) = Inr ?resp"
    by (simp add: sample_gateway_def)
  have code: "status_code ?resp \<noteq> 200" by simp
  have s: "str_int 404 = ''404''" by code_simp
  from non200_response_surfaced [OF run r resp code, where name = "''Soup''"
      and ?gateway2.0 = sample_gateway and selected_tab = IngredientMatching]
  show ?thesis by (simp add: sample_run s sample_gateway_def)
qed

end
